theory Spec2Isabelle
  imports Complex_Main "HOL-Library.Multiset"
begin

section \<open>Data frames and the price-history provider\<close>

text \<open>
  The candlestick dashboards (\<^verbatim>\<open>project5/real_time_stock_chart.py\<close> and
  \<^verbatim>\<open>project5/real_time_stock_chart2.py\<close>) receive a pandas data frame from
  \<^verbatim>\<open>yf.download\<close>.  A frame is modelled by its column index, its row index and one
  list of cells per column.  The column index is either flat (one label per column) or
  layered (a tuple of labels per column, such as \<^verbatim>\<open>('Open', 'AAPL')\<close>: the level-0
  label and the labels of the remaining levels).  The row index of a daily price
  history is a \<^verbatim>\<open>DatetimeIndex\<close> named \<^verbatim>\<open>Date\<close>; time stamps are integers.
  Cells are of an arbitrary type \<open>'v\<close>: the callbacks only pass them on.
\<close>

type_synonym timestamp = int

datatype col_index = Index "string list" | MultiIndex "(string \<times> string list) list"

record 'v dataframe =
  columns :: col_index
  index :: "timestamp list"
  data :: "'v list list"

datatype py_error = KeyError | ValueError

fun labels :: "col_index \<Rightarrow> string list" where
  "labels (Index ls) = ls"
| "labels (MultiIndex ts) = map fst ts"

text \<open>\<^verbatim>\<open>len(df.columns)\<close>.\<close>

fun ncols :: "col_index \<Rightarrow> nat" where
  "ncols (Index ls) = length ls"
| "ncols (MultiIndex ts) = length ts"

text \<open>\<^verbatim>\<open>df.empty\<close>: pandas reports a frame as empty when any of its axes has length 0.\<close>

definition df_empty :: "'v dataframe \<Rightarrow> bool" where
  "df_empty df \<longleftrightarrow> index df = [] \<or> ncols (columns df) = 0"

text \<open>\<^verbatim>\<open>isinstance(df.columns, pd.MultiIndex)\<close>.\<close>

fun is_MultiIndex :: "col_index \<Rightarrow> bool" where
  "is_MultiIndex (MultiIndex ts) = True"
| "is_MultiIndex (Index ls) = False"

text \<open>\<^verbatim>\<open>df.columns.get_level_values(0)\<close>: the level-0 label of every column.\<close>

definition get_level_values0 :: "col_index \<Rightarrow> col_index" where
  "get_level_values0 ci = Index (labels ci)"

text \<open>
  The normalisation step of both callbacks:
  \<^verbatim>\<open>if isinstance(df.columns, pd.MultiIndex): df.columns = df.columns.get_level_values(0)\<close>.
\<close>

definition normalize_columns :: "'v dataframe \<Rightarrow> 'v dataframe" where
  "normalize_columns df =
     (if is_MultiIndex (columns df) then df\<lparr>columns := get_level_values0 (columns df)\<rparr> else df)"

text \<open>\<^verbatim>\<open>col in df.columns\<close> on a flat index.\<close>

definition col_in :: "string \<Rightarrow> 'v dataframe \<Rightarrow> bool" where
  "col_in col df \<longleftrightarrow> col \<in> set (labels (columns df))"

text \<open>
  \<^verbatim>\<open>df[col]\<close>: a missing label raises \<^verbatim>\<open>KeyError\<close>, a label carried by exactly one
  column selects a series, a label carried by several columns selects a frame of all
  of them.
\<close>

datatype 'v selection = Series "'v list" | Frame "'v list list"

definition getitem :: "'v dataframe \<Rightarrow> string \<Rightarrow> py_error + 'v selection" where
  "getitem df col =
     (case map snd (filter (\<lambda>(l, d). l = col) (zip (labels (columns df)) (data df))) of
        [] \<Rightarrow> Inl KeyError
      | [d] \<Rightarrow> Inr (Series d)
      | ds \<Rightarrow> Inr (Frame ds))"

text \<open>
  \<^verbatim>\<open>df.reset_index()\<close> turns the row index into a column named after the index,
  \<^verbatim>\<open>Date\<close>; pandas raises \<^verbatim>\<open>ValueError\<close> when a column of that name exists already.
  The new column holds time stamps and the others hold cells, so the model keeps the
  dates in the \<open>index\<close> field, where \<open>date_column\<close> reads them as \<^verbatim>\<open>df['Date']\<close> does
  after the reset.
\<close>

definition reset_index :: "'v dataframe \<Rightarrow> py_error + 'v dataframe" where
  "reset_index df = (if col_in ''Date'' df then Inl ValueError else Inr df)"

definition date_column :: "'v dataframe \<Rightarrow> timestamp list" where
  "date_column df = index df"

text \<open>\<^verbatim>\<open>pd.to_datetime\<close> on a column that already holds time stamps returns them unchanged.\<close>

definition to_datetime :: "timestamp list \<Rightarrow> timestamp list" where
  "to_datetime ts = ts"

text \<open>
  The network: \<^verbatim>\<open>yf.download(ticker, start=..., end=..., group_by="column")\<close> is the one
  effect of the callbacks.  The provider is a response function together with the log
  of the requests made so far; a download appends to the log.
\<close>

type_synonym request = "string \<times> string \<times> string"

record 'v network =
  respond :: "request \<Rightarrow> 'v dataframe"
  calls :: "request list"

definition yf_download ::
  "'v network \<Rightarrow> string \<Rightarrow> string \<Rightarrow> string \<Rightarrow> 'v dataframe \<times> 'v network" where
  "yf_download net ticker start end_date =
     (respond net (ticker, start, end_date),
      net\<lparr>calls := calls net @ [(ticker, start, end_date)]\<rparr>)"

section \<open>Figures\<close>

text \<open>
  A \<^verbatim>\<open>go.Figure\<close> is its list of traces and its layout.  The only trace the
  callbacks build is \<^verbatim>\<open>go.Candlestick(x=..., open=..., high=..., low=..., close=..., name=...)\<close>.
  A layout attribute that was never set is \<open>None\<close>.  The second output of the callbacks is
  a style dictionary, whose values are strings or numbers.
\<close>

datatype 'v trace =
  Candlestick "timestamp list" "'v selection" "'v selection" "'v selection" "'v selection" string

record layout =
  title :: "string option"
  template :: "string option"
  xaxis_title :: "string option"
  yaxis_title :: "string option"
  xaxis_rangeslider_visible :: "bool option"

record 'v figure =
  traces :: "'v trace list"
  fig_layout :: layout

datatype style_value = SInt int | SStr string

type_synonym style = "(string \<times> style_value) list"

text \<open>\<^verbatim>\<open>go.Figure()\<close>: no trace, nothing set in the layout.\<close>

definition Figure :: "'v figure" where
  "Figure = \<lparr>traces = [],
     fig_layout = \<lparr>title = None, template = None, xaxis_title = None, yaxis_title = None,
       xaxis_rangeslider_visible = None\<rparr>\<rparr>"

text \<open>\<^verbatim>\<open>fig.update_layout(...)\<close> sets the attributes given and keeps the others.\<close>

definition update_layout :: "(layout \<Rightarrow> layout) \<Rightarrow> 'v figure \<Rightarrow> 'v figure" where
  "update_layout f fig = fig\<lparr>fig_layout := f (fig_layout fig)\<rparr>"

text \<open>\<^verbatim>\<open>fig.add_trace(t)\<close>.\<close>

definition add_trace :: "'v trace \<Rightarrow> 'v figure \<Rightarrow> 'v figure" where
  "add_trace t fig = fig\<lparr>traces := traces fig @ [t]\<rparr>"

text \<open>\<^verbatim>\<open>str.upper\<close> on the ASCII letters of a ticker symbol.\<close>

definition upper_char :: "char \<Rightarrow> char" where
  "upper_char c =
     (let n = (of_char c :: nat) in if 97 \<le> n \<and> n \<le> 122 then char_of (n - 32) else c)"

definition upper :: "string \<Rightarrow> string" where
  "upper s = map upper_char s"

section \<open>The candlestick callback, first version\<close>

text \<open>
  \<^verbatim>\<open>if not n_clicks\<close>: the click count is \<^verbatim>\<open>None\<close> or an integer, and both \<^verbatim>\<open>None\<close> and
  0 are false.
\<close>

fun not_clicks :: "int option \<Rightarrow> bool" where
  "not_clicks None = True"
| "not_clicks (Some n) = (n = 0)"

definition required_cols :: "string list" where
  "required_cols = [''Open'', ''High'', ''Low'', ''Close'']"

text \<open>
  The validation loop \<^verbatim>\<open>for col in [...]: if col not in df.columns: ... return\<close>: the
  first label of the list that the frame lacks, if there is one.
\<close>

fun first_missing :: "string list \<Rightarrow> 'v dataframe \<Rightarrow> string option" where
  "first_missing [] df = None"
| "first_missing (col # cols) df =
     (if \<not> col_in col df then Some col else first_missing cols df)"

text \<open>The f-string \<^verbatim>\<open>f"Missing '{col}' data for {ticker}"\<close>.\<close>

definition missing_title :: "string \<Rightarrow> string \<Rightarrow> string" where
  "missing_title col ticker = ''Missing '' @ [CHR 0x27] @ col @ [CHR 0x27] @ '' data for '' @ ticker"

definition empty_fig :: "'v figure" where
  "empty_fig = update_layout
     (\<lambda>l. l\<lparr>title := Some ''No data returned for this ticker/date range'',
      template := Some ''plotly_dark'',
      xaxis_title := Some ''Date'',
      yaxis_title := Some ''Price (USD)''\<rparr>) Figure"

definition missing_fig :: "string \<Rightarrow> string \<Rightarrow> 'v figure" where
  "missing_fig col ticker = update_layout
     (\<lambda>l. l\<lparr>title := Some (missing_title col ticker),
      template := Some ''plotly_dark'',
      xaxis_title := Some ''Date'',
      yaxis_title := Some ''Price (USD)''\<rparr>) Figure"

text \<open>
  The success path: reset the index, convert the \<^verbatim>\<open>Date\<close> column, read the four price
  columns in the order of the keyword arguments, add the trace and set the layout.
\<close>

definition candlestick_fig :: "string \<Rightarrow> 'v dataframe \<Rightarrow> py_error + 'v figure" where
  "candlestick_fig ticker df0 =
     (case reset_index df0 of Inl e \<Rightarrow> Inl e | Inr df \<Rightarrow>
       (let dates = to_datetime (date_column df) in
        (case getitem df ''Open'' of Inl e \<Rightarrow> Inl e | Inr op \<Rightarrow>
        (case getitem df ''High'' of Inl e \<Rightarrow> Inl e | Inr hi \<Rightarrow>
        (case getitem df ''Low'' of Inl e \<Rightarrow> Inl e | Inr lo \<Rightarrow>
        (case getitem df ''Close'' of Inl e \<Rightarrow> Inl e | Inr cl \<Rightarrow>
           Inr (update_layout
             (\<lambda>l. l\<lparr>title := Some (''Candlestick Chart of '' @ ticker),
                xaxis_title := Some ''Date'',
                yaxis_title := Some ''Price (USD)'',
                xaxis_rangeslider_visible := Some False,
                template := Some ''plotly_dark''\<rparr>)
             (add_trace (Candlestick dates op hi lo cl ticker) Figure))))))))"

text \<open>
  \<^verbatim>\<open>update_chart(n_clicks, ticker, start_date, end_date)\<close> of
  \<^verbatim>\<open>real_time_stock_chart.py\<close>.  The result is the pair of outputs, or the exception
  that escapes, together with the network after the call.  The \<^verbatim>\<open>print\<close> calls write to
  the console only and are no part of the outputs.
\<close>

definition update_chart ::
  "'v network \<Rightarrow> int option \<Rightarrow> string \<Rightarrow> string \<Rightarrow> string \<Rightarrow>
     (py_error + 'v figure \<times> style) \<times> 'v network" where
  "update_chart net n_clicks ticker start_date end_date =
     (if not_clicks n_clicks then (Inr (Figure, [(''visibility'', SStr ''hidden'')]), net)
      else
        let (df0, net') = yf_download net ticker start_date end_date in
        if df_empty df0 then (Inr (empty_fig, [(''visibility'', SStr ''visible'')]), net')
        else
          let df = normalize_columns df0 in
          case first_missing required_cols df of
            Some col \<Rightarrow> (Inr (missing_fig col ticker, [(''visibility'', SStr ''visible'')]), net')
          | None \<Rightarrow>
              (case candlestick_fig ticker df of
                 Inl e \<Rightarrow> (Inl e, net')
               | Inr fig \<Rightarrow> (Inr (fig, [(''visibility'', SStr ''visible'')]), net')))"

section \<open>The candlestick callback, second version\<close>

text \<open>The f-string \<^verbatim>\<open>f"Missing '{col}' data for {ticker}."\<close>.\<close>

definition missing_title2 :: "string \<Rightarrow> string \<Rightarrow> string" where
  "missing_title2 col ticker =
     ''Missing '' @ [CHR 0x27] @ col @ [CHR 0x27] @ '' data for '' @ ticker @ ''.''"

definition empty_fig2 :: "'v figure" where
  "empty_fig2 = update_layout
     (\<lambda>l. l\<lparr>title := Some ''No data returned for this ticker or date range.'',
      template := Some ''plotly_dark''\<rparr>) Figure"

definition missing_fig2 :: "string \<Rightarrow> string \<Rightarrow> 'v figure" where
  "missing_fig2 col ticker = update_layout
     (\<lambda>l. l\<lparr>title := Some (missing_title2 col ticker),
      template := Some ''plotly_dark''\<rparr>) Figure"

text \<open>
  Here the trace is passed to the constructor, \<^verbatim>\<open>go.Figure(data=[go.Candlestick(...)])\<close>,
  the \<^verbatim>\<open>Date\<close> column is used as it is, and the ticker is upper-cased.
\<close>

definition candlestick_fig2 :: "string \<Rightarrow> 'v dataframe \<Rightarrow> py_error + 'v figure" where
  "candlestick_fig2 ticker df0 =
     (case reset_index df0 of Inl e \<Rightarrow> Inl e | Inr df \<Rightarrow>
       (let dates = date_column df in
        (case getitem df ''Open'' of Inl e \<Rightarrow> Inl e | Inr op \<Rightarrow>
        (case getitem df ''High'' of Inl e \<Rightarrow> Inl e | Inr hi \<Rightarrow>
        (case getitem df ''Low'' of Inl e \<Rightarrow> Inl e | Inr lo \<Rightarrow>
        (case getitem df ''Close'' of Inl e \<Rightarrow> Inl e | Inr cl \<Rightarrow>
           Inr (update_layout
             (\<lambda>l. l\<lparr>title := Some (''Candlestick Chart of '' @ upper ticker),
                xaxis_title := Some ''Date'',
                yaxis_title := Some ''Price (USD)'',
                xaxis_rangeslider_visible := Some False,
                template := Some ''plotly_dark''\<rparr>)
             (Figure\<lparr>traces := [Candlestick dates op hi lo cl (upper ticker)]\<rparr>))))))))"

text \<open>\<^verbatim>\<open>update_chart\<close> of \<^verbatim>\<open>real_time_stock_chart2.py\<close>.\<close>

definition update_chart2 ::
  "'v network \<Rightarrow> int option \<Rightarrow> string \<Rightarrow> string \<Rightarrow> string \<Rightarrow>
     (py_error + 'v figure \<times> style) \<times> 'v network" where
  "update_chart2 net n_clicks ticker start_date end_date =
     (if not_clicks n_clicks
      then (Inr (Figure, [(''flex'', SInt 1), (''visibility'', SStr ''hidden'')]), net)
      else
        let (df0, net') = yf_download net ticker start_date end_date in
        if df_empty df0
        then (Inr (empty_fig2, [(''flex'', SInt 1), (''visibility'', SStr ''visible'')]), net')
        else
          let df = normalize_columns df0 in
          case first_missing required_cols df of
            Some col \<Rightarrow>
              (Inr (missing_fig2 col ticker,
                 [(''flex'', SInt 1), (''visibility'', SStr ''visible'')]), net')
          | None \<Rightarrow>
              (case candlestick_fig2 ticker df of
                 Inl e \<Rightarrow> (Inl e, net')
               | Inr fig \<Rightarrow>
                   (Inr (fig, [(''flex'', SInt 1), (''visibility'', SStr ''visible'')]), net')))"

section \<open>Plotly Express figures\<close>

text \<open>
  The histogram, bar and choropleth builders call \<^verbatim>\<open>px.histogram\<close>, \<^verbatim>\<open>px.bar\<close> and
  \<^verbatim>\<open>px.choropleth\<close> on a data frame and then \<^verbatim>\<open>fig.update_layout\<close>.  What the library
  draws is outside the builders; the chart they return is modelled by what they hand
  over: the Express function, the data frame, the keyword arguments and the layout
  arguments, as written in the source.
\<close>

datatype chart_kind = table | histogram | bar | candlestick | choropleth

datatype arg = Str string | Strs "string list" | Bool bool | Num int | Dict "(string \<times> int) list"

record 'd px_figure =
  px_kind :: chart_kind
  data_frame :: 'd
  px_args :: "(string \<times> arg) list"
  layout_args :: "(string \<times> arg) list"


text \<open>\<^verbatim>\<open>str(n)\<close> for an integer, as the f-strings of the titles format the year.\<close>

fun str_nat :: "nat \<Rightarrow> string" where
  "str_nat n = (if n < 10 then [char_of (48 + n)] else str_nat (n div 10) @ [char_of (48 + n mod 10)])"

declare str_nat.simps [simp del]

definition str_int :: "int \<Rightarrow> string" where
  "str_int i = (if i < 0 then ''-'' @ str_nat (nat (- i)) else str_nat (nat i))"

section \<open>The housing histogram\<close>


section \<open>The Gapminder dashboard\<close>

text \<open>
  \<^verbatim>\<open>gapminder(datetimes=True, centroids=True, pretty_names=True)\<close> gives one row per
  country and year with the ten columns below; the module then replaces the \<^verbatim>\<open>Year\<close>
  column by the integer year.  The data set is the list of its rows, in their order.
  The numeric columns hold no missing value.
\<close>

record row =
  Country :: string
  Continent :: string
  Year :: int
  Life_Expectancy :: real
  Population :: int
  GDP_per_Capita :: real
  ISO_Alpha_Country_Code :: string
  ISO_Numeric_Country_Code :: int
  Centroid_Latitude :: real
  Centroid_Longitude :: real

definition gapminder_columns :: "string list" where
  "gapminder_columns = [''Country'', ''Continent'', ''Year'', ''Life Expectancy'', ''Population'',
     ''GDP per Capita'', ''ISO Alpha Country Code'', ''ISO Numeric Country Code'',
     ''Centroid Latitude'', ''Centroid Longitude'']"

text \<open>
  \<^verbatim>\<open>DataFrame.sort_values(by=..., ascending=False)\<close> is a pandas method, called with its
  default algorithm (\<^verbatim>\<open>kind='quicksort'\<close>).  What pandas promises of it is that the rows
  come back rearranged with the key descending; the order among rows of equal key is
  promised only for \<^verbatim>\<open>kind='stable'\<close> and \<^verbatim>\<open>kind='mergesort'\<close>.  The builders therefore
  take the sorting function as a parameter, and \<open>sorts_descending\<close> is the contract.
\<close>

definition sorts_descending :: "(('a \<Rightarrow> 'k::linorder) \<Rightarrow> 'a list \<Rightarrow> 'a list) \<Rightarrow> bool" where
  "sorts_descending sort_values \<longleftrightarrow>
     (\<forall>key xs. mset (sort_values key xs) = mset xs \<and>
        sorted_wrt (\<lambda>a b. key a \<ge> key b) (sort_values key xs))"

text \<open>One sorting function that meets the contract: insertion into a descending list.\<close>

fun insert_desc :: "('a \<Rightarrow> 'k::linorder) \<Rightarrow> 'a \<Rightarrow> 'a list \<Rightarrow> 'a list" where
  "insert_desc key a [] = [a]"
| "insert_desc key a (b # bs) =
     (if key a \<ge> key b then a # b # bs else b # insert_desc key a bs)"

fun sort_desc :: "('a \<Rightarrow> 'k::linorder) \<Rightarrow> 'a list \<Rightarrow> 'a list" where
  "sort_desc key [] = []"
| "sort_desc key (a # as) = insert_desc key a (sort_desc key as)"

text \<open>
  Another one: the same on the reversed list, which places rows of equal key in the
  reverse of their input order.
\<close>

definition sort_desc_rev :: "('a \<Rightarrow> 'k::linorder) \<Rightarrow> 'a list \<Rightarrow> 'a list" where
  "sort_desc_rev key xs = sort_desc key (rev xs)"

text \<open>
  The row selection \<^verbatim>\<open>gapminder_df[(gapminder_df["Continent"] == continent) &
  (gapminder_df["Year"] == year)]\<close>, shared by the three bar builders.
\<close>

definition filter_continent_year :: "row list \<Rightarrow> string \<Rightarrow> int \<Rightarrow> row list" where
  "filter_continent_year gapminder_df continent year =
     filter (\<lambda>r. Continent r = continent \<and> Year r = year) gapminder_df"

text \<open>\<^verbatim>\<open>.head(15)\<close>.\<close>

definition head15 :: "'a list \<Rightarrow> 'a list" where
  "head15 xs = take 15 xs"

definition create_population_chart ::
  "((row \<Rightarrow> int) \<Rightarrow> row list \<Rightarrow> row list) \<Rightarrow> row list \<Rightarrow> string \<Rightarrow> int \<Rightarrow> row list px_figure" where
  "create_population_chart sort_values gapminder_df continent year =
     (let filtered_df = filter_continent_year gapminder_df continent year;
          filtered_df = head15 (sort_values Population filtered_df)
      in \<lparr>px_kind = bar, data_frame = filtered_df,
           px_args = [(''x'', Str ''Country''), (''y'', Str ''Population''),
             (''color'', Str ''Country''),
             (''title'', Str (''Country Population for '' @ continent @ '' Continent in '' @ str_int year)),
             (''text_auto'', Bool True)],
           layout_args = [(''paper_bgcolor'', Str ''#e5ecf6''), (''height'', Num 600)]\<rparr>)"

definition create_gdp_chart ::
  "((row \<Rightarrow> real) \<Rightarrow> row list \<Rightarrow> row list) \<Rightarrow> row list \<Rightarrow> string \<Rightarrow> int \<Rightarrow> row list px_figure" where
  "create_gdp_chart sort_values gapminder_df continent year =
     (let filtered_df = filter_continent_year gapminder_df continent year;
          filtered_df = head15 (sort_values GDP_per_Capita filtered_df)
      in \<lparr>px_kind = bar, data_frame = filtered_df,
           px_args = [(''x'', Str ''Country''), (''y'', Str ''GDP per Capita''),
             (''color'', Str ''Country''),
             (''title'', Str (''Country GDP per Capita for '' @ continent @ '' Continent in '' @ str_int year)),
             (''text_auto'', Bool True)],
           layout_args = [(''paper_bgcolor'', Str ''#e5ecf6''), (''height'', Num 600)]\<rparr>)"

definition create_life_exp_chart ::
  "((row \<Rightarrow> real) \<Rightarrow> row list \<Rightarrow> row list) \<Rightarrow> row list \<Rightarrow> string \<Rightarrow> int \<Rightarrow> row list px_figure" where
  "create_life_exp_chart sort_values gapminder_df continent year =
     (let filtered_df = filter_continent_year gapminder_df continent year;
          filtered_df = head15 (sort_values Life_Expectancy filtered_df)
      in \<lparr>px_kind = bar, data_frame = filtered_df,
           px_args = [(''x'', Str ''Country''), (''y'', Str ''Life Expectancy''),
             (''color'', Str ''Country''),
             (''title'', Str (''Country Life Expectancy for '' @ continent @ '' Continent in '' @ str_int year)),
             (''text_auto'', Bool True)],
           layout_args = [(''paper_bgcolor'', Str ''#e5ecf6''), (''height'', Num 600)]\<rparr>)"

text \<open>
  \<^verbatim>\<open>create_choropleth_map(variable, year)\<close>.  Plotly Express raises \<^verbatim>\<open>ValueError\<close> when
  \<^verbatim>\<open>color\<close> (or an entry of \<^verbatim>\<open>hover_data\<close>) is not the name of a column of the frame.
\<close>

definition create_choropleth_map ::
  "row list \<Rightarrow> string \<Rightarrow> int \<Rightarrow> py_error + row list px_figure" where
  "create_choropleth_map gapminder_df variable year =
     (let filtered_df = filter (\<lambda>r. Year r = year) gapminder_df
      in if variable \<in> set gapminder_columns
         then Inr \<lparr>px_kind = choropleth, data_frame = filtered_df,
           px_args = [(''color'', Str variable),
             (''locations'', Str ''ISO Alpha Country Code''),
             (''locationmode'', Str ''ISO-3''),
             (''color_continuous_scale'', Str ''RdYlBu''),
             (''hover_data'', Strs [''Country'', variable]),
             (''title'', Str (variable @ '' Choropleth Map ['' @ str_int year @ '']''))],
           layout_args = [(''dragmode'', Bool False), (''paper_bgcolor'', Str ''#e5ecf6''),
             (''height'', Num 600), (''margin'', Dict [(''l'', 0), (''r'', 0)])]\<rparr>
         else Inl ValueError)"

section \<open>Example inputs\<close>

text \<open>
  Frames as the provider returns them for one ticker: a layered column index with the
  field on level 0 and the ticker on level 1.  \<open>no_rows\<close> is the answer for an unknown
  ticker; \<open>frame_without_low\<close> lacks one required field and \<open>frame_without_high_close\<close>
  lacks two.
\<close>

definition no_rows :: "real dataframe" where
  "no_rows = \<lparr>columns = Index [], index = [], data = []\<rparr>"

definition aapl_frame :: "real dataframe" where
  "aapl_frame = \<lparr>columns = MultiIndex [(''Close'', [''AAPL'']), (''High'', [''AAPL'']),
       (''Low'', [''AAPL'']), (''Open'', [''AAPL'']), (''Volume'', [''AAPL''])],
     index = [19360, 19361],
     data = [[125.07, 126.36], [130.9, 128.66], [124.17, 125.08], [130.28, 126.89],
             [112117500, 89113600]]\<rparr>"

definition frame_without_low :: "real dataframe" where
  "frame_without_low = \<lparr>columns = MultiIndex [(''Close'', [''AAPL'']), (''High'', [''AAPL'']),
       (''Open'', [''AAPL'']), (''Volume'', [''AAPL''])],
     index = [19360],
     data = [[125.07], [130.9], [130.28], [112117500]]\<rparr>"

definition frame_without_high_close :: "real dataframe" where
  "frame_without_high_close = \<lparr>columns = MultiIndex [(''Low'', [''AAPL'']), (''Open'', [''AAPL''])],
     index = [19360],
     data = [[124.17], [130.28]]\<rparr>"

text \<open>A provider that answers every request with the given frame and has not been called yet.\<close>

definition provider :: "'v dataframe \<Rightarrow> 'v network" where
  "provider df = \<lparr>respond = (\<lambda>req. df), calls = []\<rparr>"

text \<open>
  Rows of the Gapminder data set: three Asian countries and one European country in
  1952, and one Asian country in 1957.
\<close>

definition china_1952 :: row where
  "china_1952 = \<lparr>Country = ''China'', Continent = ''Asia'', Year = 1952,
     Life_Expectancy = 44, Population = 556263527, GDP_per_Capita = 400.45,
     ISO_Alpha_Country_Code = ''CHN'', ISO_Numeric_Country_Code = 156,
     Centroid_Latitude = 36.56, Centroid_Longitude = 103.82\<rparr>"

definition india_1952 :: row where
  "india_1952 = \<lparr>Country = ''India'', Continent = ''Asia'', Year = 1952,
     Life_Expectancy = 37.37, Population = 372000000, GDP_per_Capita = 546.57,
     ISO_Alpha_Country_Code = ''IND'', ISO_Numeric_Country_Code = 356,
     Centroid_Latitude = 22.89, Centroid_Longitude = 79.61\<rparr>"

definition japan_1952 :: row where
  "japan_1952 = \<lparr>Country = ''Japan'', Continent = ''Asia'', Year = 1952,
     Life_Expectancy = 63.03, Population = 86459025, GDP_per_Capita = 3216.96,
     ISO_Alpha_Country_Code = ''JPN'', ISO_Numeric_Country_Code = 392,
     Centroid_Latitude = 37.59, Centroid_Longitude = 138.03\<rparr>"

definition germany_1952 :: row where
  "germany_1952 = \<lparr>Country = ''Germany'', Continent = ''Europe'', Year = 1952,
     Life_Expectancy = 67.5, Population = 69145952, GDP_per_Capita = 7144.11,
     ISO_Alpha_Country_Code = ''DEU'', ISO_Numeric_Country_Code = 276,
     Centroid_Latitude = 51.11, Centroid_Longitude = 10.39\<rparr>"

definition india_1957 :: row where
  "india_1957 = \<lparr>Country = ''India'', Continent = ''Asia'', Year = 1957,
     Life_Expectancy = 40.25, Population = 409000000, GDP_per_Capita = 590.06,
     ISO_Alpha_Country_Code = ''IND'', ISO_Numeric_Country_Code = 356,
     Centroid_Latitude = 22.89, Centroid_Longitude = 79.61\<rparr>"

definition sample_df :: "row list" where
  "sample_df = [india_1952, india_1957, germany_1952, japan_1952, china_1952]"

text \<open>Two rows of one continent and year with the same population.\<close>

definition tie_df :: "row list" where
  "tie_df = [india_1952, china_1952\<lparr>Population := 372000000\<rparr>]"

section \<open>Facts about the figures and the validation loop\<close>

lemma not_clicks_iff: "not_clicks n \<longleftrightarrow> n = None \<or> n = Some 0"
  by (cases n) auto

lemma traces_Figure: "traces Figure = []"
  by (simp add: Figure_def)

lemma traces_update_layout: "traces (update_layout f fig) = traces fig"
  by (simp add: update_layout_def)

lemma traces_error_figs:
  "traces empty_fig = []" "traces empty_fig2 = []"
  "traces (missing_fig col ticker) = []" "traces (missing_fig2 col ticker) = []"
  by (simp_all add: empty_fig_def empty_fig2_def missing_fig_def missing_fig2_def
      traces_update_layout traces_Figure)

lemma title_error_figs:
  "title (fig_layout empty_fig) = Some ''No data returned for this ticker/date range''"
  "title (fig_layout empty_fig2) = Some ''No data returned for this ticker or date range.''"
  "title (fig_layout (missing_fig col ticker)) = Some (missing_title col ticker)"
  "title (fig_layout (missing_fig2 col ticker)) = Some (missing_title2 col ticker)"
  by (simp_all add: empty_fig_def empty_fig2_def missing_fig_def missing_fig2_def
      update_layout_def)

lemma first_missing_Some:
  "first_missing cols df = Some c \<Longrightarrow> c \<in> set cols \<and> \<not> col_in c df"
  by (induction cols) (auto split: if_splits)

lemma first_missing_None:
  "first_missing cols df = None \<longleftrightarrow> (\<forall>c\<in>set cols. col_in c df)"
  by (induction cols) auto

lemma update_chart_empty:
  assumes "\<not> not_clicks n" and "df_empty (respond net (ticker, s, e))"
  shows "fst (update_chart net n ticker s e) =
    Inr (empty_fig, [(''visibility'', SStr ''visible'')])"
  using assms by (simp add: update_chart_def yf_download_def)

lemma update_chart2_empty:
  assumes "\<not> not_clicks n" and "df_empty (respond net (ticker, s, e))"
  shows "fst (update_chart2 net n ticker s e) =
    Inr (empty_fig2, [(''flex'', SInt 1), (''visibility'', SStr ''visible'')])"
  using assms by (simp add: update_chart2_def yf_download_def)

lemma update_chart_missing:
  assumes "\<not> not_clicks n" and "\<not> df_empty (respond net (ticker, s, e))"
    and "first_missing required_cols (normalize_columns (respond net (ticker, s, e))) = Some col"
  shows "fst (update_chart net n ticker s e) =
    Inr (missing_fig col ticker, [(''visibility'', SStr ''visible'')])"
  using assms by (simp add: update_chart_def yf_download_def)

lemma update_chart2_missing:
  assumes "\<not> not_clicks n" and "\<not> df_empty (respond net (ticker, s, e))"
    and "first_missing required_cols (normalize_columns (respond net (ticker, s, e))) = Some col"
  shows "fst (update_chart2 net n ticker s e) =
    Inr (missing_fig2 col ticker, [(''flex'', SInt 1), (''visibility'', SStr ''visible'')])"
  using assms by (simp add: update_chart2_def yf_download_def)

lemma labels_normalize_columns: "labels (columns (normalize_columns df)) = labels (columns df)"
  by (cases "columns df") (simp_all add: normalize_columns_def get_level_values0_def)

lemma df_empty_no_rows: "df_empty no_rows"
  by (simp add: df_empty_def no_rows_def)

section \<open>Initial page load\<close>

text \<open>
  Claim C4.  When the click count is absent or zero, both versions of the candlestick
  callback return the figure without any trace and a container style whose
  \<^verbatim>\<open>visibility\<close> is \<^verbatim>\<open>hidden\<close>.  The outputs are the same whatever the provider would
  answer, and the network comes back as it was: its log of requests has not grown, so
  no download was made.
\<close>

theorem initial_load_hidden_without_fetch:
  assumes "n_clicks = None \<or> n_clicks = Some 0"
  shows "update_chart net n_clicks ticker start_date end_date =
        (Inr (Figure, [(''visibility'', SStr ''hidden'')]), net)
    \<and> update_chart2 net n_clicks ticker start_date end_date =
        (Inr (Figure, [(''flex'', SInt 1), (''visibility'', SStr ''hidden'')]), net)
    \<and> traces (Figure :: 'v figure) = []
    \<and> map_of [(''visibility'', SStr ''hidden'')] ''visibility'' = Some (SStr ''hidden'')
    \<and> map_of [(''flex'', SInt 1), (''visibility'', SStr ''hidden'')] ''visibility'' =
        Some (SStr ''hidden'')
    \<and> calls (snd (update_chart net n_clicks ticker start_date end_date)) = calls net
    \<and> calls (snd (update_chart2 net n_clicks ticker start_date end_date)) = calls net"
  using assms by (auto simp: update_chart_def update_chart2_def traces_Figure)

theorem initial_load_hidden_without_fetch_witness:
  "(Some (0::int) = None \<or> Some (0::int) = Some 0)
   \<and> update_chart (provider aapl_frame) (Some 0) ''AAPL'' ''2023-01-01'' ''2025-01-01'' =
       (Inr (Figure, [(''visibility'', SStr ''hidden'')]), provider aapl_frame)
   \<and> calls (snd (update_chart2 (provider aapl_frame) (Some 0) ''AAPL'' ''2025-01-01'' ''2025-05-15''))
       = calls (provider aapl_frame)"
proof -
  have h: "Some (0::int) = None \<or> Some (0::int) = Some 0"
    by simp
  from h initial_load_hidden_without_fetch
      [OF h, of "provider aapl_frame" "''AAPL''" "''2023-01-01''" "''2025-01-01''"]
    initial_load_hidden_without_fetch
      [OF h, of "provider aapl_frame" "''AAPL''" "''2025-01-01''" "''2025-05-15''"]
  show ?thesis by blast
qed

section \<open>Empty fetch results\<close>

text \<open>
  Claim C2.  After at least one submission (\<^verbatim>\<open>n_clicks >= 1\<close>), when the frame the provider
  returns is empty, both versions of the candlestick callback return (and do not
  raise) a figure without any trace whose title says that no data was returned, and a
  container style whose \<^verbatim>\<open>visibility\<close> is \<^verbatim>\<open>visible\<close>.
\<close>

theorem empty_fetch_gives_titled_empty_chart:
  assumes "1 \<le> n" and "df_empty (respond net (ticker, start_date, end_date))"
  shows "(\<exists>fig st. fst (update_chart net (Some n) ticker start_date end_date) = Inr (fig, st)
        \<and> traces fig = []
        \<and> title (fig_layout fig) = Some ''No data returned for this ticker/date range''
        \<and> map_of st ''visibility'' = Some (SStr ''visible''))
    \<and> (\<exists>fig st. fst (update_chart2 net (Some n) ticker start_date end_date) = Inr (fig, st)
        \<and> traces fig = []
        \<and> title (fig_layout fig) = Some ''No data returned for this ticker or date range.''
        \<and> map_of st ''visibility'' = Some (SStr ''visible''))"
proof -
  from assms(1) have "\<not> not_clicks (Some n)"
    by simp
  with assms(2) show ?thesis
    by (simp add: update_chart_empty update_chart2_empty traces_error_figs title_error_figs)
qed

theorem empty_fetch_gives_titled_empty_chart_witness:
  "(1::int) \<le> 1 \<and> df_empty (respond (provider no_rows) (''ZZZZ'', ''2023-01-01'', ''2025-01-01''))
   \<and> (\<exists>fig st. fst (update_chart (provider no_rows) (Some 1) ''ZZZZ'' ''2023-01-01'' ''2025-01-01'')
          = Inr (fig, st)
        \<and> traces fig = []
        \<and> title (fig_layout fig) = Some ''No data returned for this ticker/date range''
        \<and> map_of st ''visibility'' = Some (SStr ''visible''))"
proof -
  have h1: "(1::int) \<le> 1"
    by simp
  have h2: "df_empty (respond (provider no_rows) (''ZZZZ'', ''2023-01-01'', ''2025-01-01''))"
    by (simp add: provider_def df_empty_no_rows)
  from h1 h2 empty_fetch_gives_titled_empty_chart [OF h1 h2]
  show ?thesis by blast
qed

section \<open>Missing required columns\<close>

text \<open>
  Claim C3.  After a submission, when the frame the provider returns is not empty and,
  once its column index is flattened, lacks exactly one of \<^verbatim>\<open>Open\<close>, \<^verbatim>\<open>High\<close>, \<^verbatim>\<open>Low\<close>,
  \<^verbatim>\<open>Close\<close>, both versions of the candlestick callback return (and do not raise) a figure
  without any trace whose title names that field, and a container style whose
  \<^verbatim>\<open>visibility\<close> is \<^verbatim>\<open>visible\<close>.
\<close>

theorem missing_column_named_in_title:
  assumes "\<not> not_clicks n_clicks"
    and "\<not> df_empty (respond net (ticker, start_date, end_date))"
    and "set required_cols
           - set (labels (columns (normalize_columns (respond net (ticker, start_date, end_date)))))
         = {col}"
  shows "(\<exists>fig st. fst (update_chart net n_clicks ticker start_date end_date) = Inr (fig, st)
        \<and> traces fig = []
        \<and> title (fig_layout fig) =
            Some (''Missing '' @ [CHR 0x27] @ col @ [CHR 0x27] @ '' data for '' @ ticker)
        \<and> map_of st ''visibility'' = Some (SStr ''visible''))
    \<and> (\<exists>fig st. fst (update_chart2 net n_clicks ticker start_date end_date) = Inr (fig, st)
        \<and> traces fig = []
        \<and> title (fig_layout fig) =
            Some (''Missing '' @ [CHR 0x27] @ col @ [CHR 0x27] @ '' data for '' @ ticker @ ''.'')
        \<and> map_of st ''visibility'' = Some (SStr ''visible''))"
proof -
  let ?df = "normalize_columns (respond net (ticker, start_date, end_date))"
  have "col \<in> set required_cols" "\<not> col_in col ?df"
    using assms(3) by (auto simp: col_in_def)
  then have "first_missing required_cols ?df \<noteq> None"
    by (auto simp: first_missing_None)
  then obtain c where c: "first_missing required_cols ?df = Some c"
    by auto
  from first_missing_Some[OF c] assms(3) have "c = col"
    by (auto simp: col_in_def)
  with c assms(1,2) show ?thesis
    by (simp add: update_chart_missing update_chart2_missing traces_error_figs
        title_error_figs missing_title_def missing_title2_def)
qed

theorem missing_column_named_in_title_witness:
  "\<not> not_clicks (Some 1)
   \<and> \<not> df_empty (respond (provider frame_without_low) (''AAPL'', ''2023-01-01'', ''2025-01-01''))
   \<and> set required_cols
        - set (labels (columns (normalize_columns
            (respond (provider frame_without_low) (''AAPL'', ''2023-01-01'', ''2025-01-01'')))))
       = {''Low''}
   \<and> (\<exists>fig st. fst (update_chart (provider frame_without_low) (Some 1) ''AAPL'' ''2023-01-01''
            ''2025-01-01'') = Inr (fig, st)
        \<and> traces fig = []
        \<and> title (fig_layout fig) = Some ''Missing 'Low' data for AAPL''
        \<and> map_of st ''visibility'' = Some (SStr ''visible''))"
proof -
  have h1: "\<not> not_clicks (Some 1)"
    by simp
  have h2: "\<not> df_empty (respond (provider frame_without_low)
      (''AAPL'', ''2023-01-01'', ''2025-01-01''))"
    by (simp add: provider_def df_empty_def frame_without_low_def)
  have h3: "set required_cols
        - set (labels (columns (normalize_columns
            (respond (provider frame_without_low) (''AAPL'', ''2023-01-01'', ''2025-01-01'')))))
       = {''Low''}"
    by (auto simp: provider_def labels_normalize_columns frame_without_low_def required_cols_def)
  have "(\<exists>fig st. fst (update_chart (provider frame_without_low) (Some 1) ''AAPL'' ''2023-01-01''
            ''2025-01-01'') = Inr (fig, st)
        \<and> traces fig = []
        \<and> title (fig_layout fig) = Some (''Missing '' @ [CHR 0x27] @ ''Low'' @ [CHR 0x27] @ '' data for '' @ ''AAPL'')
        \<and> map_of st ''visibility'' = Some (SStr ''visible''))"
    using missing_column_named_in_title [OF h1 h2 h3] by blast
  then have "(\<exists>fig st. fst (update_chart (provider frame_without_low) (Some 1) ''AAPL'' ''2023-01-01''
            ''2025-01-01'') = Inr (fig, st)
        \<and> traces fig = []
        \<and> title (fig_layout fig) = Some ''Missing 'Low' data for AAPL''
        \<and> map_of st ''visibility'' = Some (SStr ''visible''))"
    by simp
  with h1 h2 h3 show ?thesis by blast
qed

text \<open>
  Claim C9.  After a submission, when the frame is not empty and lacks at least one of
  the four required fields once its columns are flattened, the title of the error
  chart names the first field, in the order \<^verbatim>\<open>Open\<close>, \<^verbatim>\<open>High\<close>, \<^verbatim>\<open>Low\<close>, \<^verbatim>\<open>Close\<close>, that
  is missing, whichever other fields are missing as well.
\<close>

theorem title_names_first_missing_column:
  assumes "\<not> not_clicks n_clicks"
    and "\<not> df_empty (respond net (ticker, start_date, end_date))"
    and "df = normalize_columns (respond net (ticker, start_date, end_date))"
    and "\<exists>c\<in>set required_cols. \<not> col_in c df"
    and "col = (if \<not> col_in ''Open'' df then ''Open''
                else if \<not> col_in ''High'' df then ''High''
                else if \<not> col_in ''Low'' df then ''Low'' else ''Close'')"
  shows "(\<exists>fig st. fst (update_chart net n_clicks ticker start_date end_date) = Inr (fig, st)
        \<and> title (fig_layout fig) =
            Some (''Missing '' @ [CHR 0x27] @ col @ [CHR 0x27] @ '' data for '' @ ticker))
    \<and> (\<exists>fig st. fst (update_chart2 net n_clicks ticker start_date end_date) = Inr (fig, st)
        \<and> title (fig_layout fig) =
            Some (''Missing '' @ [CHR 0x27] @ col @ [CHR 0x27] @ '' data for '' @ ticker @ ''.''))"
proof -
  have "first_missing required_cols df = Some col"
    using assms(4,5) by (auto simp: required_cols_def)
  with assms(1,2,3) show ?thesis
    by (simp add: update_chart_missing update_chart2_missing title_error_figs
        missing_title_def missing_title2_def)
qed

theorem title_names_first_missing_column_witness:
  "\<not> not_clicks (Some 2)
   \<and> \<not> df_empty (respond (provider frame_without_high_close) (''AAPL'', ''2023-01-01'', ''2025-01-01''))
   \<and> \<not> col_in ''High'' (normalize_columns frame_without_high_close)
   \<and> \<not> col_in ''Close'' (normalize_columns frame_without_high_close)
   \<and> (\<exists>fig st. fst (update_chart (provider frame_without_high_close) (Some 2) ''AAPL''
            ''2023-01-01'' ''2025-01-01'') = Inr (fig, st)
        \<and> title (fig_layout fig) = Some ''Missing 'High' data for AAPL'')
   \<and> (\<exists>fig st. fst (update_chart2 (provider frame_without_high_close) (Some 2) ''AAPL''
            ''2023-01-01'' ''2025-01-01'') = Inr (fig, st)
        \<and> title (fig_layout fig) = Some ''Missing 'High' data for AAPL.'')"
proof -
  let ?df = "normalize_columns frame_without_high_close"
  have labels: "labels (columns ?df) = [''Low'', ''Open'']"
    by (simp add: labels_normalize_columns frame_without_high_close_def)
  have h1: "\<not> not_clicks (Some 2)"
    by simp
  have h2: "\<not> df_empty (respond (provider frame_without_high_close)
      (''AAPL'', ''2023-01-01'', ''2025-01-01''))"
    by (simp add: provider_def df_empty_def frame_without_high_close_def)
  have h3: "?df = normalize_columns (respond (provider frame_without_high_close)
      (''AAPL'', ''2023-01-01'', ''2025-01-01''))"
    by (simp add: provider_def)
  have m: "\<not> col_in ''High'' ?df" "\<not> col_in ''Close'' ?df" "col_in ''Open'' ?df"
    by (simp_all add: col_in_def labels)
  have h4: "\<exists>c\<in>set required_cols. \<not> col_in c ?df"
    using m by (auto simp: required_cols_def)
  have h5: "''High'' = (if \<not> col_in ''Open'' ?df then ''Open''
                else if \<not> col_in ''High'' ?df then ''High''
                else if \<not> col_in ''Low'' ?df then ''Low'' else ''Close'')"
    using m by simp
  have "(\<exists>fig st. fst (update_chart (provider frame_without_high_close) (Some 2) ''AAPL''
            ''2023-01-01'' ''2025-01-01'') = Inr (fig, st)
        \<and> title (fig_layout fig) =
            Some (''Missing '' @ [CHR 0x27] @ ''High'' @ [CHR 0x27] @ '' data for '' @ ''AAPL''))
    \<and> (\<exists>fig st. fst (update_chart2 (provider frame_without_high_close) (Some 2) ''AAPL''
            ''2023-01-01'' ''2025-01-01'') = Inr (fig, st)
        \<and> title (fig_layout fig) =
            Some (''Missing '' @ [CHR 0x27] @ ''High'' @ [CHR 0x27] @ '' data for '' @ ''AAPL'' @ ''.''))"
    by (rule title_names_first_missing_column [OF h1 h2 h3 h4 h5])
  then have "(\<exists>fig st. fst (update_chart (provider frame_without_high_close) (Some 2) ''AAPL''
            ''2023-01-01'' ''2025-01-01'') = Inr (fig, st)
        \<and> title (fig_layout fig) = Some ''Missing 'High' data for AAPL'')
   \<and> (\<exists>fig st. fst (update_chart2 (provider frame_without_high_close) (Some 2) ''AAPL''
            ''2023-01-01'' ''2025-01-01'') = Inr (fig, st)
        \<and> title (fig_layout fig) = Some ''Missing 'High' data for AAPL.'')"
    by simp
  with h1 h2 m show ?thesis by blast
qed

section \<open>The chart returned on the error path\<close>




section \<open>The two versions of the candlestick callback\<close>


lemma candlestick_fig_traces:
  "candlestick_fig ticker df = Inr fig \<Longrightarrow> \<exists>d op hi lo cl. traces fig = [Candlestick d op hi lo cl ticker]"
  by (auto simp: candlestick_fig_def update_layout_def add_trace_def Figure_def
      split: sum.splits)





section \<open>The bar builders of the Gapminder dashboard\<close>

lemma mset_insert_desc: "mset (insert_desc key a xs) = add_mset a (mset xs)"
  by (induction xs) auto

lemma mset_sort_desc: "mset (sort_desc key xs) = mset xs"
  by (induction xs) (auto simp: mset_insert_desc)

lemma set_insert_desc: "set (insert_desc key a xs) = insert a (set xs)"
  by (induction xs) auto

lemma sorted_insert_desc:
  "sorted_wrt (\<lambda>a b. key a \<ge> key b) xs \<Longrightarrow>
   sorted_wrt (\<lambda>a b. key a \<ge> key b) (insert_desc key x xs)"
  by (induction xs) (auto simp: set_insert_desc)

lemma sorted_sort_desc: "sorted_wrt (\<lambda>a b. key a \<ge> key b) (sort_desc key xs)"
  by (induction xs) (auto simp: sorted_insert_desc)

lemma sorts_descending_sort_desc: "sorts_descending sort_desc"
  by (simp add: sorts_descending_def mset_sort_desc sorted_sort_desc)

lemma sorted_wrt_take: "sorted_wrt P xs \<Longrightarrow> sorted_wrt P (take n xs)"
  by (metis append_take_drop_id sorted_wrt_append)

lemma top15_properties:
  assumes "sorts_descending sort_values"
  shows "length (head15 (sort_values key (filter_continent_year df continent year))) \<le> 15"
    and "sorted_wrt (\<lambda>a b. key a \<ge> key b)
           (head15 (sort_values key (filter_continent_year df continent year)))"
    and "\<forall>r\<in>set (head15 (sort_values key (filter_continent_year df continent year))).
           Continent r = continent \<and> Year r = year \<and> r \<in> set df"
proof -
  let ?f = "filter_continent_year df continent year"
  from assms have m: "mset (sort_values key ?f) = mset ?f"
    and s: "sorted_wrt (\<lambda>a b. key a \<ge> key b) (sort_values key ?f)"
    by (simp_all add: sorts_descending_def)
  show "length (head15 (sort_values key ?f)) \<le> 15"
    by (simp add: head15_def)
  show "sorted_wrt (\<lambda>a b. key a \<ge> key b) (head15 (sort_values key ?f))"
    using s by (simp add: head15_def sorted_wrt_take)
  from m have "set (sort_values key ?f) = set ?f"
    by (rule mset_eq_setD)
  then have "set (head15 (sort_values key ?f)) \<subseteq> set ?f"
    using set_take_subset [of 15 "sort_values key ?f"] by (simp add: head15_def)
  then show "\<forall>r\<in>set (head15 (sort_values key ?f)).
      Continent r = continent \<and> Year r = year \<and> r \<in> set df"
    by (auto simp: filter_continent_year_def)
qed

text \<open>
  Claim C1.  Whatever sorting function meeting the contract of \<^verbatim>\<open>sort_values\<close> is used,
  for every data set, continent and year (present in the data set or not) the data of
  the chart returned by each of the three bar builders has at most 15 rows, is sorted
  descending by the builder's metric, and consists of rows of the data set whose
  continent and year are the requested ones.
\<close>

theorem bar_builders_top15_sorted_filtered:
  assumes "sorts_descending sort_int" and "sorts_descending sort_real"
  shows "(length (data_frame (create_population_chart sort_int df continent year)) \<le> 15
      \<and> sorted_wrt (\<lambda>a b. Population a \<ge> Population b)
           (data_frame (create_population_chart sort_int df continent year))
      \<and> (\<forall>r\<in>set (data_frame (create_population_chart sort_int df continent year)).
           Continent r = continent \<and> Year r = year \<and> r \<in> set df))
    \<and> (length (data_frame (create_gdp_chart sort_real df continent year)) \<le> 15
      \<and> sorted_wrt (\<lambda>a b. GDP_per_Capita a \<ge> GDP_per_Capita b)
           (data_frame (create_gdp_chart sort_real df continent year))
      \<and> (\<forall>r\<in>set (data_frame (create_gdp_chart sort_real df continent year)).
           Continent r = continent \<and> Year r = year \<and> r \<in> set df))
    \<and> (length (data_frame (create_life_exp_chart sort_real df continent year)) \<le> 15
      \<and> sorted_wrt (\<lambda>a b. Life_Expectancy a \<ge> Life_Expectancy b)
           (data_frame (create_life_exp_chart sort_real df continent year))
      \<and> (\<forall>r\<in>set (data_frame (create_life_exp_chart sort_real df continent year)).
           Continent r = continent \<and> Year r = year \<and> r \<in> set df))"
  using top15_properties [OF assms(1), of Population df continent year]
    top15_properties [OF assms(2), of GDP_per_Capita df continent year]
    top15_properties [OF assms(2), of Life_Expectancy df continent year]
  by (simp add: create_population_chart_def create_gdp_chart_def create_life_exp_chart_def)

theorem bar_builders_top15_sorted_filtered_witness:
  "sorts_descending (sort_desc :: (row \<Rightarrow> int) \<Rightarrow> row list \<Rightarrow> row list)
   \<and> sorts_descending (sort_desc :: (row \<Rightarrow> real) \<Rightarrow> row list \<Rightarrow> row list)
   \<and> data_frame (create_population_chart sort_desc sample_df ''Asia'' 1952)
       = [china_1952, india_1952, japan_1952]
   \<and> data_frame (create_gdp_chart sort_desc sample_df ''Asia'' 1952)
       = [japan_1952, india_1952, china_1952]
   \<and> length (data_frame (create_population_chart sort_desc sample_df ''Asia'' 1952)) \<le> 15
   \<and> sorted_wrt (\<lambda>a b. Population a \<ge> Population b)
        (data_frame (create_population_chart sort_desc sample_df ''Asia'' 1952))
   \<and> list_all (\<lambda>r. Continent r = ''Asia'' \<and> Year r = 1952)
        (data_frame (create_gdp_chart sort_desc sample_df ''Asia'' 1952))"
proof -
  have h1: "sorts_descending (sort_desc :: (row \<Rightarrow> int) \<Rightarrow> row list \<Rightarrow> row list)"
    by (rule sorts_descending_sort_desc)
  have h2: "sorts_descending (sort_desc :: (row \<Rightarrow> real) \<Rightarrow> row list \<Rightarrow> row list)"
    by (rule sorts_descending_sort_desc)
  have f: "filter_continent_year sample_df ''Asia'' 1952 = [india_1952, japan_1952, china_1952]"
    by (simp add: filter_continent_year_def sample_df_def china_1952_def india_1952_def
        japan_1952_def germany_1952_def india_1957_def)
  have p: "data_frame (create_population_chart sort_desc sample_df ''Asia'' 1952)
       = [china_1952, india_1952, japan_1952]"
    by (simp add: create_population_chart_def f head15_def china_1952_def india_1952_def
        japan_1952_def)
  have g: "data_frame (create_gdp_chart sort_desc sample_df ''Asia'' 1952)
       = [japan_1952, india_1952, china_1952]"
    by (simp add: create_gdp_chart_def f head15_def china_1952_def india_1952_def
        japan_1952_def)
  from h1 h2 p g bar_builders_top15_sorted_filtered [OF h1 h2, of sample_df "''Asia''" 1952]
  show ?thesis by (simp add: list_all_iff)
qed

section \<open>The choropleth builder\<close>

text \<open>
  Claim C5.  For every data set, year and variable name, a chart returned by the
  choropleth builder holds exactly the rows of the data set whose year is the
  requested one, in their order: every row of the chart has that year, and no row of
  another year is in it.  The builder returns a chart for each of the three variables
  the dashboard offers; for a name that is no column Plotly Express raises and no
  chart is returned.
\<close>

theorem choropleth_only_rows_of_year:
  "(variable \<in> {''Population'', ''GDP per Capita'', ''Life Expectancy''} \<longrightarrow>
      (\<exists>fig. create_choropleth_map df variable year = Inr fig))
   \<and> (\<forall>fig. create_choropleth_map df variable year = Inr fig \<longrightarrow>
        data_frame fig = filter (\<lambda>r. Year r = year) df
        \<and> (\<forall>r\<in>set (data_frame fig). Year r = year \<and> r \<in> set df)
        \<and> (\<forall>r\<in>set df. Year r \<noteq> year \<longrightarrow> r \<notin> set (data_frame fig)))"
  by (auto simp: create_choropleth_map_def gapminder_columns_def)

theorem choropleth_only_rows_of_year_witness:
  "''Life Expectancy'' \<in> {''Population'', ''GDP per Capita'', ''Life Expectancy''}
   \<and> (\<exists>fig. create_choropleth_map sample_df ''Life Expectancy'' 1957 = Inr fig
        \<and> data_frame fig = [india_1957]
        \<and> india_1952 \<in> set sample_df \<and> Year india_1952 \<noteq> 1957
        \<and> india_1952 \<notin> set (data_frame fig))"
proof -
  have v: "''Life Expectancy'' \<in> {''Population'', ''GDP per Capita'', ''Life Expectancy''}"
    by simp
  have f: "filter (\<lambda>r. Year r = 1957) sample_df = [india_1957]"
    by (simp add: sample_df_def china_1952_def india_1952_def japan_1952_def germany_1952_def
        india_1957_def)
  have m: "india_1952 \<in> set sample_df" "Year india_1952 \<noteq> 1957"
    by (simp_all add: sample_df_def india_1952_def)
  from v f m choropleth_only_rows_of_year [of "''Life Expectancy''" sample_df 1957]
  show ?thesis by (metis)
qed

section \<open>Determinism of the builders\<close>





section \<open>Order among rows of equal metric\<close>

text \<open>
  The contract of \<^verbatim>\<open>sort_values\<close> does not fix the order among rows of equal key.
  Insertion sort keeps them in their input order; the same sort on the reversed list
  meets the contract as well and returns them in the opposite order, so the ranking
  of a bar builder on tied rows follows the sorting function it is given.
\<close>

lemma filter_insert_desc:
  "filter (\<lambda>r. key r = k) (insert_desc key a xs) =
     (if key a = k then a # filter (\<lambda>r. key r = k) xs else filter (\<lambda>r. key r = k) xs)"
  by (induction xs) auto

lemma sort_desc_keeps_ties_in_order:
  "filter (\<lambda>r. key r = k) (sort_desc key xs) = filter (\<lambda>r. key r = k) xs"
  by (induction xs) (simp_all add: filter_insert_desc)

lemma sorts_descending_sort_desc_rev: "sorts_descending sort_desc_rev"
  by (simp add: sorts_descending_def sort_desc_rev_def mset_sort_desc sorted_sort_desc)

lemma tie_order_follows_sorting_function:
  "Population (tie_df ! 0) = Population (tie_df ! 1)
   \<and> data_frame (create_population_chart sort_desc tie_df ''Asia'' 1952) = tie_df
   \<and> data_frame (create_population_chart sort_desc_rev tie_df ''Asia'' 1952) = rev tie_df"
  by (simp add: create_population_chart_def filter_continent_year_def head15_def
      sort_desc_rev_def tie_df_def india_1952_def china_1952_def)

end
